theory Spec2Isabelle
  imports Main
begin

section \<open>Go values\<close>

text \<open>
  The package is generic over its operand types and hands every operand to the reporting
  capability as an \<^verbatim>\<open>any\<close>. The model works on a universe of Go values that carry their
  dynamic type: booleans, ints, strings, error values, pointers, slices and maps. A nil
  slice, map or pointer is a value of its own, distinct from an initialised empty one.
  Floats, structs, channels, functions and named types are outside the universe.
\<close>

datatype ty = TBool | TInt | TString | TAny | TError | TPtr ty | TSlice ty | TMap ty ty

text \<open>
  A non-nil error value: its dynamic type as \<^verbatim>\<open>%T\<close> prints it, the text its
  \<^verbatim>\<open>Error()\<close> method returns, and the error \<^verbatim>\<open>errors.Unwrap\<close> yields. An error value is
  identified by these three; the address of a pointer-typed error is not modelled.
\<close>

datatype err = Err (dyn_type: string) (Error_text: string) (Unwrap: "err option")

text \<open>
  \<open>VNil\<close> is the nil interface value. A pointer carries its element type, its address
  and the value it points to; a map lists its entries in the key order in which
  \<^verbatim>\<open>fmt\<close> prints them.
\<close>

datatype val =
    VNil
  | VBool bool
  | VInt int
  | VString string
  | VError err
  | VNilPtr ty
  | VPtr ty nat val
  | VNilSlice ty
  | VSlice ty "val list"
  | VNilMap ty ty
  | VMap ty ty "(val \<times> val) list"

text \<open>Operands of static type \<^verbatim>\<open>*T\<close>, \<^verbatim>\<open>[]T\<close>, \<^verbatim>\<open>map[K]V\<close> and \<^verbatim>\<open>error\<close>.\<close>

datatype ptr = NilPtr | Ptr nat val

datatype slice = NilSlice | Slice "val list"

datatype gomap = NilMap | MapOf "(val \<times> val) list"

text \<open>Conversion of a typed operand to \<^verbatim>\<open>any\<close>, as passing it to \<^verbatim>\<open>Errorf\<close> does.\<close>

fun any_ptr :: "ty \<Rightarrow> ptr \<Rightarrow> val" where
  "any_ptr T NilPtr = VNilPtr T"
| "any_ptr T (Ptr a v) = VPtr T a v"

fun any_slice :: "ty \<Rightarrow> slice \<Rightarrow> val" where
  "any_slice T NilSlice = VNilSlice T"
| "any_slice T (Slice xs) = VSlice T xs"

fun any_map :: "ty \<Rightarrow> ty \<Rightarrow> gomap \<Rightarrow> val" where
  "any_map K V NilMap = VNilMap K V"
| "any_map K V (MapOf kvs) = VMap K V kvs"

fun any_error :: "err option \<Rightarrow> val" where
  "any_error None = VNil"
| "any_error (Some e) = VError e"

text \<open>The built-in \<^verbatim>\<open>len\<close>: a nil slice or map has length 0.\<close>

fun len_slice :: "slice \<Rightarrow> nat" where
  "len_slice NilSlice = 0"
| "len_slice (Slice xs) = length xs"

fun len_map :: "gomap \<Rightarrow> nat" where
  "len_map NilMap = 0"
| "len_map (MapOf kvs) = length kvs"

section \<open>The fragment of package fmt that the assertions use\<close>

text \<open>
  \<^verbatim>\<open>fmt\<close> belongs to Go's standard library, not to this repository. It is modelled
  after its documentation for the verbs \<^verbatim>\<open>%v\<close>, \<^verbatim>\<open>%s\<close>, \<^verbatim>\<open>%d\<close>, \<^verbatim>\<open>%t\<close>, \<^verbatim>\<open>%T\<close> and
  \<^verbatim>\<open>%%\<close> on the values above, without flags, width, precision or argument indexes.
  Any other character after a percent sign is rendered the way \<^verbatim>\<open>fmt\<close> renders a
  character that is no verb for the operand (\<^verbatim>\<open>%!c(type=value)\<close>); Go's remaining
  verbs and its flags are outside the model, and so is \<^verbatim>\<open>%d\<close> on an error value.
  The formats of the package itself use \<^verbatim>\<open>%s\<close> on a string, \<^verbatim>\<open>%v\<close> and \<^verbatim>\<open>%T\<close> only.
\<close>

definition digit :: "nat \<Rightarrow> char" where
  "digit d = ''0123456789abcdef'' ! d"

fun show_nat :: "nat \<Rightarrow> string" where
  "show_nat n = (if n < 10 then [digit n] else show_nat (n div 10) @ [digit (n mod 10)])"

fun show_hex :: "nat \<Rightarrow> string" where
  "show_hex n = (if n < 16 then [digit n] else show_hex (n div 16) @ [digit (n mod 16)])"

definition show_int :: "int \<Rightarrow> string" where
  "show_int i = (if i < 0 then ''-'' @ show_nat (nat (- i)) else show_nat (nat i))"

fun join :: "string \<Rightarrow> string list \<Rightarrow> string" where
  "join sep [] = []"
| "join sep [x] = x"
| "join sep (x # y # ys) = x @ sep @ join sep (y # ys)"

fun ty_name :: "ty \<Rightarrow> string" where
  "ty_name TBool = ''bool''"
| "ty_name TInt = ''int''"
| "ty_name TString = ''string''"
| "ty_name TAny = ''interface {}''"
| "ty_name TError = ''error''"
| "ty_name (TPtr T) = ''*'' @ ty_name T"
| "ty_name (TSlice T) = ''[]'' @ ty_name T"
| "ty_name (TMap K V) = ''map['' @ ty_name K @ '']'' @ ty_name V"

text \<open>\<^verbatim>\<open>reflect.TypeOf(v).String()\<close>, which \<^verbatim>\<open>%T\<close> prints; \<^verbatim>\<open><nil>\<close> for the nil interface.\<close>

fun type_name :: "val \<Rightarrow> string" where
  "type_name VNil = ''<nil>''"
| "type_name (VBool b) = ''bool''"
| "type_name (VInt i) = ''int''"
| "type_name (VString s) = ''string''"
| "type_name (VError e) = dyn_type e"
| "type_name (VNilPtr T) = ''*'' @ ty_name T"
| "type_name (VPtr T a v) = ''*'' @ ty_name T"
| "type_name (VNilSlice T) = ''[]'' @ ty_name T"
| "type_name (VSlice T xs) = ''[]'' @ ty_name T"
| "type_name (VNilMap K V) = ''map['' @ ty_name K @ '']'' @ ty_name V"
| "type_name (VMap K V kvs) = ''map['' @ ty_name K @ '']'' @ ty_name V"

fun is_container :: "ty \<Rightarrow> bool" where
  "is_container (TSlice T) = True"
| "is_container (TMap K V) = True"
| "is_container T = False"

text \<open>
  \<^verbatim>\<open>printValue(value, 'v', depth)\<close>: the default format. A pointer to a slice or map
  prints as \<^verbatim>\<open>&\<close> and the pointee at the top level only, otherwise as its address.
\<close>

fun printV :: "nat \<Rightarrow> val \<Rightarrow> string" where
  "printV depth VNil = ''<nil>''"
| "printV depth (VBool b) = (if b then ''true'' else ''false'')"
| "printV depth (VInt i) = show_int i"
| "printV depth (VString s) = s"
| "printV depth (VError e) = Error_text e"
| "printV depth (VNilPtr T) = ''<nil>''"
| "printV depth (VPtr T a v) =
     (if depth = 0 \<and> is_container T then ''&'' @ printV (Suc depth) v
      else ''0x'' @ show_hex a)"
| "printV depth (VNilSlice T) = ''[]''"
| "printV depth (VSlice T xs) = ''['' @ join '' '' (map (printV (Suc depth)) xs) @ '']''"
| "printV depth (VNilMap K V) = ''map[]''"
| "printV depth (VMap K V kvs) =
     ''map['' @ join '' '' (map (\<lambda>kv. printV (Suc depth) (fst kv) @ '':'' @ printV (Suc depth) (snd kv)) kvs) @ '']''"

text \<open>
  What \<^verbatim>\<open>fmt\<close> prints for a verb that does not fit the operand:
  \<^verbatim>\<open>%!verb(type=value)\<close>, the value in its default format.
\<close>

definition badVerb :: "char \<Rightarrow> val \<Rightarrow> string" where
  "badVerb verb v =
     (if v = VNil then ''%!'' @ [verb] @ ''(<nil>)''
      else ''%!'' @ [verb] @ ''('' @ type_name v @ ''='' @ printV 0 v @ '')'')"

text \<open>\<^verbatim>\<open>printValue(value, verb, depth)\<close> for the modelled verbs.\<close>

fun printValue :: "char \<Rightarrow> nat \<Rightarrow> val \<Rightarrow> string" where
  "printValue verb depth VNil = ''<nil>''"
| "printValue verb depth (VBool b) =
     (if verb = CHR ''t'' \<or> verb = CHR ''v'' then (if b then ''true'' else ''false'')
      else badVerb verb (VBool b))"
| "printValue verb depth (VInt i) =
     (if verb = CHR ''v'' \<or> verb = CHR ''d'' then show_int i else badVerb verb (VInt i))"
| "printValue verb depth (VString s) =
     (if verb = CHR ''v'' \<or> verb = CHR ''s'' then s else badVerb verb (VString s))"
| "printValue verb depth (VError e) =
     (if verb = CHR ''v'' \<or> verb = CHR ''s'' then Error_text e else badVerb verb (VError e))"
| "printValue verb depth (VNilPtr T) =
     (if verb = CHR ''v'' then ''<nil>''
      else if verb = CHR ''d'' then ''0''
      else badVerb verb (VNilPtr T))"
| "printValue verb depth (VPtr T a v) =
     (if depth = 0 \<and> is_container T then ''&'' @ printValue verb (Suc depth) v
      else if verb = CHR ''v'' then ''0x'' @ show_hex a
      else if verb = CHR ''d'' then show_nat a
      else badVerb verb (VPtr T a v))"
| "printValue verb depth (VNilSlice T) = ''[]''"
| "printValue verb depth (VSlice T xs) =
     ''['' @ join '' '' (map (printValue verb (Suc depth)) xs) @ '']''"
| "printValue verb depth (VNilMap K V) = ''map[]''"
| "printValue verb depth (VMap K V kvs) =
     ''map['' @ join '' '' (map (\<lambda>kv. printValue verb (Suc depth) (fst kv) @ '':'' @ printValue verb (Suc depth) (snd kv)) kvs) @ '']''"

text \<open>\<^verbatim>\<open>printArg(arg, verb)\<close>: one operand under one verb.\<close>

definition printArg :: "char \<Rightarrow> val \<Rightarrow> string" where
  "printArg verb arg =
     (if arg = VNil then
        (if verb = CHR ''T'' \<or> verb = CHR ''v'' then ''<nil>'' else badVerb verb arg)
      else if verb = CHR ''T'' then type_name arg
      else printValue verb 0 arg)"

text \<open>The operands a format left over: \<^verbatim>\<open>%!(EXTRA type=value, ...)\<close>.\<close>

definition extraArgs :: "val list \<Rightarrow> string" where
  "extraArgs args =
     (if args = [] then ''''
      else ''%!(EXTRA '' @
           join '', '' (map (\<lambda>a. if a = VNil then ''<nil>''
                                  else type_name a @ ''='' @ printArg (CHR ''v'') a) args) @
           '')'')"

text \<open>
  \<^verbatim>\<open>fmt.Sprintf(format, a...)\<close>: text is copied, \<^verbatim>\<open>%%\<close> prints a percent sign and
  takes no operand, a verb takes the next operand or prints \<^verbatim>\<open>%!verb(MISSING)\<close>, a
  percent sign at the end prints \<^verbatim>\<open>%!(NOVERB)\<close>.
\<close>

fun Sprintf :: "string \<Rightarrow> val list \<Rightarrow> string" where
  "Sprintf [] args = extraArgs args"
| "Sprintf [c] args = (if c = CHR ''%'' then ''%!(NOVERB)'' @ extraArgs args else c # extraArgs args)"
| "Sprintf (c # verb # format) args =
     (if c \<noteq> CHR ''%'' then c # Sprintf (verb # format) args
      else if verb = CHR ''%'' then CHR ''%'' # Sprintf format args
      else (case args of
              [] \<Rightarrow> ''%!'' @ [verb] @ ''(MISSING)'' @ Sprintf format []
            | a # rest \<Rightarrow> printArg verb a @ Sprintf format rest))"

text \<open>
  \<^verbatim>\<open>fmt.Sprint(a...)\<close>: every operand in its default format, with a space between two
  operands when neither is a string.
\<close>

fun doPrint :: "bool \<Rightarrow> bool \<Rightarrow> val list \<Rightarrow> string" where
  "doPrint first prevString [] = ''''"
| "doPrint first prevString (arg # rest) =
     (let isString = (case arg of VString s \<Rightarrow> True | _ \<Rightarrow> False)
      in (if \<not> first \<and> \<not> isString \<and> \<not> prevString then '' '' else '''') @
         printArg (CHR ''v'') arg @ doPrint False isString rest)"

definition Sprint :: "val list \<Rightarrow> string" where
  "Sprint args = doPrint True False args"

text \<open>
  \<^verbatim>\<open>fmt.Errorf(format, a...)\<close> for a format without \<^verbatim>\<open>%w\<close>: a new error of type
  \<^verbatim>\<open>*errors.errorString\<close> with the formatted text, wrapping nothing.
\<close>

definition fmt_Errorf :: "string \<Rightarrow> val list \<Rightarrow> err" where
  "fmt_Errorf format args = Err ''*errors.errorString'' (Sprintf format args) None"

section \<open>Panics and the reporting capability\<close>

text \<open>
  A call either returns a value or panics with a value. The language version the
  package requires (Go 1.20) lets \<^verbatim>\<open>panic(nil)\<close> raise the nil value itself, so the
  value of a panic may be \<open>VNil\<close>.
\<close>

datatype 'a res = Return 'a | Panic val

text \<open>
  A Go computation over a state \<open>'s\<close>, the state of everything the reporting
  capability and the operation under test can change.
\<close>

type_synonym ('s, 'a) go = "'s \<Rightarrow> 'a res \<times> 's"

definition ret :: "'a \<Rightarrow> ('s, 'a) go" where
  "ret x s = (Return x, s)"

definition panic :: "val \<Rightarrow> ('s, 'a) go" where
  "panic v s = (Panic v, s)"

text \<open>Sequencing: a panic of the first computation skips the second.\<close>

definition bnd :: "('s, 'a) go \<Rightarrow> ('a \<Rightarrow> ('s, 'b) go) \<Rightarrow> ('s, 'b) go" where
  "bnd m k s = (case m s of (Return x, s') \<Rightarrow> k x s' | (Panic v, s') \<Rightarrow> (Panic v, s'))"

text \<open>A call that does not touch the state.\<close>

definition pure :: "'a res \<Rightarrow> ('s, 'a) go" where
  "pure r s = (r, s)"

text \<open>
  \<^verbatim>\<open>type TB interface { Helper(); Errorf(format string, args ...any) }\<close>. Both
  operations act on the state and return: the report is non-fatal. A capability whose
  operations panic or end the goroutine, as \<^verbatim>\<open>Fatalf\<close> does, is outside the model.
\<close>

record 's TB =
  Helper :: "'s \<Rightarrow> 's"
  Errorf :: "string \<Rightarrow> val list \<Rightarrow> 's \<Rightarrow> 's"

definition call_Helper :: "'s TB \<Rightarrow> ('s, unit) go" where
  "call_Helper t s = (Return (), Helper t s)"

definition call_Errorf :: "'s TB \<Rightarrow> string \<Rightarrow> val list \<Rightarrow> ('s, unit) go" where
  "call_Errorf t format args s = (Return (), Errorf t format args s)"

text \<open>
  The reporting capability that records the calls it receives, in order. The text of a
  report is the format applied to its operands.
\<close>

datatype call = HelperCall | ErrorfCall string "val list"

definition recorder :: "call list TB" where
  "recorder = \<lparr>Helper = (\<lambda>s. s @ [HelperCall]), Errorf = (\<lambda>format args s. s @ [ErrorfCall format args])\<rparr>"

text \<open>
  What a test observes of a call: that the frame was marked as a helper, or the text
  of a report, which is \<^verbatim>\<open>fmt.Sprintf(format, args...)\<close>.
\<close>

datatype event = Marked | Reported string

fun observe :: "call \<Rightarrow> event" where
  "observe HelperCall = Marked"
| "observe (ErrorfCall format args) = Reported (Sprintf format args)"

text \<open>The result of a run on the recorder, with the events of its trace.\<close>

definition outcome :: "'a res \<times> call list \<Rightarrow> 'a res \<times> event list" where
  "outcome r = (fst r, map observe (snd r))"

section \<open>The message formatter\<close>

text \<open>
  \<^verbatim>\<open>func FormatPrefix(messageAndArgs []any) string\<close>: the prefix, or a panic with the
  error \<^verbatim>\<open>fmt.Errorf\<close> builds when the first element is not a string.
\<close>

definition FormatPrefix :: "val list \<Rightarrow> string res" where
  "FormatPrefix messageAndArgs =
     (if length messageAndArgs = 0 then Return ''''
      else (case messageAndArgs ! 0 of
              VString msg \<Rightarrow> Return (Sprintf msg (drop 1 messageAndArgs) @ '': '')
            | _ \<Rightarrow> Panic (VError (fmt_Errorf
                ''when passing messageAndArgs to assertion funcs, the first extra argument must be a format string, got %T %v''
                [messageAndArgs ! 0, messageAndArgs ! 0]))))"

text \<open>\<^verbatim>\<open>func AddPrefix(messageAndArgs []any, prefix string, args ...any) []any\<close>.\<close>

definition AddPrefix :: "val list \<Rightarrow> string \<Rightarrow> val list \<Rightarrow> val list" where
  "AddPrefix messageAndArgs prefix args =
     (let (prefix', messageAndArgs') =
            (if length messageAndArgs > 0 then
               (case messageAndArgs ! 0 of
                  VString msg \<Rightarrow> (prefix @ '': '' @ msg, drop 1 messageAndArgs)
                | _ \<Rightarrow> (prefix, messageAndArgs))
             else (prefix, messageAndArgs))
      in ([VString prefix'] @ args) @ messageAndArgs')"

section \<open>The comparisons of the language and its library\<close>




text \<open>\<^verbatim>\<open>var zero T\<close>: the zero value of a type.\<close>

fun zero :: "ty \<Rightarrow> val" where
  "zero TBool = VBool False"
| "zero TInt = VInt 0"
| "zero TString = VString ''''"
| "zero TAny = VNil"
| "zero TError = VNil"
| "zero (TPtr T) = VNilPtr T"
| "zero (TSlice T) = VNilSlice T"
| "zero (TMap K V) = VNilMap K V"


text \<open>
  \<^verbatim>\<open>errors.Is(err, target)\<close>: whether the target is the error or one of the errors
  its chain of \<^verbatim>\<open>Unwrap\<close> yields. Errors with an \<^verbatim>\<open>Is\<close> method of their own or with
  several wrapped errors are outside the model.
\<close>

fun in_chain :: "err \<Rightarrow> err \<Rightarrow> bool" where
  "in_chain (Err T m u) target =
     (Err T m u = target \<or> (case u of None \<Rightarrow> False | Some e \<Rightarrow> in_chain e target))"

fun errors_Is :: "err option \<Rightarrow> err option \<Rightarrow> bool" where
  "errors_Is (Some e) (Some target) = in_chain e target"
| "errors_Is a e = (a = e)"

text \<open>\<^verbatim>\<open>*a\<close>: reading through a nil pointer panics.\<close>

fun deref :: "ptr \<Rightarrow> val res" where
  "deref (Ptr a v) = Return v"
| "deref NilPtr =
     Panic (VError (Err ''runtime.errorString''
              ''runtime error: invalid memory address or nil pointer dereference'' None))"

section \<open>The assertions\<close>









definition Nil_assert :: "'s TB \<Rightarrow> ptr \<Rightarrow> val list \<Rightarrow> ('s, bool) go" where
  "Nil_assert t a messageAndArgs =
     (if a \<noteq> NilPtr then
        bnd (call_Helper t) (\<lambda>_.
        bnd (pure (FormatPrefix messageAndArgs)) (\<lambda>prefix.
        bnd (pure (deref a)) (\<lambda>pointee.
        bnd (call_Errorf t ''** %sgot &%v, wanted nil'' [VString prefix, pointee]) (\<lambda>_.
        ret False))))
      else ret True)"

definition NonNil :: "ty \<Rightarrow> 's TB \<Rightarrow> ptr \<Rightarrow> val list \<Rightarrow> ('s, bool) go" where
  "NonNil T t a messageAndArgs =
     (if a = NilPtr then
        bnd (call_Helper t) (\<lambda>_.
        bnd (pure (FormatPrefix messageAndArgs)) (\<lambda>prefix.
        bnd (call_Errorf t ''** %sgot nil %T, wanted non-nil'' [VString prefix, any_ptr T a]) (\<lambda>_.
        ret False)))
      else ret True)"



definition EmptySlice :: "ty \<Rightarrow> 's TB \<Rightarrow> slice \<Rightarrow> val list \<Rightarrow> ('s, bool) go" where
  "EmptySlice T t a messageAndArgs =
     (if len_slice a > 0 then
        bnd (call_Helper t) (\<lambda>_.
        bnd (pure (FormatPrefix messageAndArgs)) (\<lambda>prefix.
        bnd (call_Errorf t ''** %sgot %v, wanted empty slice'' [VString prefix, any_slice T a]) (\<lambda>_.
        ret False)))
      else ret True)"

definition NonEmptySlice :: "ty \<Rightarrow> 's TB \<Rightarrow> slice \<Rightarrow> val list \<Rightarrow> ('s, bool) go" where
  "NonEmptySlice T t a messageAndArgs =
     (if len_slice a = 0 then
        bnd (call_Helper t) (\<lambda>_.
        bnd (pure (FormatPrefix messageAndArgs)) (\<lambda>prefix.
        bnd (call_Errorf t ''** %sgot empty %T, wanted non-empty'' [VString prefix, any_slice T a]) (\<lambda>_.
        ret False)))
      else ret True)"

definition EmptyMap :: "ty \<Rightarrow> ty \<Rightarrow> 's TB \<Rightarrow> gomap \<Rightarrow> val list \<Rightarrow> ('s, bool) go" where
  "EmptyMap K V t a messageAndArgs =
     (if len_map a > 0 then
        bnd (call_Helper t) (\<lambda>_.
        bnd (pure (FormatPrefix messageAndArgs)) (\<lambda>prefix.
        bnd (call_Errorf t ''** %sgot %v, wanted empty map'' [VString prefix, any_map K V a]) (\<lambda>_.
        ret False)))
      else ret True)"

definition NonEmptyMap :: "ty \<Rightarrow> ty \<Rightarrow> 's TB \<Rightarrow> gomap \<Rightarrow> val list \<Rightarrow> ('s, bool) go" where
  "NonEmptyMap K V t a messageAndArgs =
     (if len_map a = 0 then
        bnd (call_Helper t) (\<lambda>_.
        bnd (pure (FormatPrefix messageAndArgs)) (\<lambda>prefix.
        bnd (call_Errorf t ''** %sgot empty %T, wanted non-empty'' [VString prefix, any_map K V a]) (\<lambda>_.
        ret False)))
      else ret True)"

text \<open>An operand of type \<^verbatim>\<open>error\<close> is \<open>None\<close> when it is nil.\<close>

definition Success :: "'s TB \<Rightarrow> err option \<Rightarrow> val list \<Rightarrow> ('s, bool) go" where
  "Success t a messageAndArgs =
     (if a \<noteq> None then
        bnd (call_Helper t) (\<lambda>_.
        bnd (pure (FormatPrefix messageAndArgs)) (\<lambda>prefix.
        bnd (call_Errorf t ''** %sfailed: %v'' [VString prefix, any_error a]) (\<lambda>_.
        ret False)))
      else ret True)"

definition Error :: "'s TB \<Rightarrow> err option \<Rightarrow> err option \<Rightarrow> val list \<Rightarrow> ('s, bool) go" where
  "Error t a e messageAndArgs =
     (if e = None then
        bnd (call_Helper t) (\<lambda>_.
        Success t a messageAndArgs)
      else if a = None then
        bnd (call_Helper t) (\<lambda>_.
        bnd (pure (FormatPrefix messageAndArgs)) (\<lambda>prefix.
        bnd (call_Errorf t ''** %ssucceeded, wanted to fail with: %v'' [VString prefix, any_error e]) (\<lambda>_.
        ret False)))
      else if \<not> errors_Is a e then
        bnd (call_Helper t) (\<lambda>_.
        bnd (pure (FormatPrefix messageAndArgs)) (\<lambda>prefix.
        bnd (call_Errorf t ''** %sfailed with: %v, wanted: %v'' [VString prefix, any_error a, any_error e]) (\<lambda>_.
        ret False)))
      else ret True)"


section \<open>The fault capturer\<close>

text \<open>
  \<^verbatim>\<open>recover()\<close> in the deferred function: the value of the panic in flight, nil when
  there is none. The deferred function runs on both exits of \<open>f\<close> and stores what
  \<^verbatim>\<open>recover\<close> returns in the named result, so \<^verbatim>\<open>capturePanic\<close> itself returns.
  The operation \<open>f\<close> is a computation over the same state as the reporting capability:
  it returns or panics, and may change the state on the way.
\<close>

fun recover :: "unit res \<Rightarrow> val" where
  "recover (Return u) = VNil"
| "recover (Panic v) = v"

definition capturePanic :: "('s, unit) go \<Rightarrow> ('s, val) go" where
  "capturePanic f s = (let (r, s') = f s in (Return (recover r), s'))"

definition PanicMsg :: "'s TB \<Rightarrow> ('s, unit) go \<Rightarrow> string \<Rightarrow> val list \<Rightarrow> ('s, bool) go" where
  "PanicMsg t f e messageAndArgs =
     bnd (capturePanic f) (\<lambda>actual.
     if actual = VNil then
        bnd (call_Helper t) (\<lambda>_.
        bnd (pure (FormatPrefix messageAndArgs)) (\<lambda>prefix.
        bnd (call_Errorf t ''** %ssucceeded, wanted to panic with: %v'' [VString prefix, VString e]) (\<lambda>_.
        ret False)))
     else (let a = Sprint [actual] in
        if a \<noteq> e then
          bnd (call_Helper t) (\<lambda>_.
          bnd (pure (FormatPrefix messageAndArgs)) (\<lambda>prefix.
          bnd (call_Errorf t ''** %spaniced with: %v, wanted: %v'' [VString prefix, VString a, VString e]) (\<lambda>_.
          ret False)))
        else ret True))"

section \<open>Notions the properties are stated with\<close>

text \<open>The default format of one operand, as \<^verbatim>\<open>%v\<close> prints it.\<close>

abbreviation fmt_v :: "val \<Rightarrow> string" where
  "fmt_v a \<equiv> printArg (CHR ''v'') a"

text \<open>The type assertion \<^verbatim>\<open>x.(string)\<close> succeeds on strings only.\<close>

fun is_string :: "val \<Rightarrow> bool" where
  "is_string (VString s) = True"
| "is_string v = False"

text \<open>
  What every assertion does once its condition has failed: it marks the frame, formats
  the prefix, which panics on a tail that does not start with a string, and reports.
\<close>

definition report :: "'s TB \<Rightarrow> val list \<Rightarrow> string \<Rightarrow> val list \<Rightarrow> ('s, bool) go" where
  "report t messageAndArgs format args s =
     (case FormatPrefix messageAndArgs of
        Return prefix \<Rightarrow> (Return False, Errorf t format (VString prefix # args) (Helper t s))
      | Panic v \<Rightarrow> (Panic v, Helper t s))"

text \<open>A tail that \<^verbatim>\<open>FormatPrefix\<close> accepts: empty, or one that starts with a string.\<close>

definition well_formed :: "val list \<Rightarrow> bool" where
  "well_formed messageAndArgs = (case messageAndArgs of [] \<Rightarrow> True | x # rest \<Rightarrow> is_string x)"

text \<open>Two error values of the shape \<^verbatim>\<open>errors.New\<close> builds, as the tests use them.\<close>

definition ErrNotExist :: err where
  "ErrNotExist = Err ''*errors.errorString'' ''file does not exist'' None"


text \<open>The value of the panic of \<^verbatim>\<open>panickyFunc\<close> in the tests, which writes past a slice.\<close>

definition index_out_of_range :: val where
  "index_out_of_range =
     VError (Err ''runtime.boundsError'' ''runtime error: index out of range [2] with length 2'' None)"

section \<open>Laws of sequencing\<close>

lemma bnd_pure_Return: "bnd (pure (Return x)) k s = k x s"
  by (simp add: bnd_def pure_def)

lemma bnd_pure_Panic: "bnd (pure (Panic v)) k s = (Panic v, s)"
  by (simp add: bnd_def pure_def)

lemma bnd_call_Helper: "bnd (call_Helper t) k s = k () (Helper t s)"
  by (simp add: bnd_def call_Helper_def)

lemma bnd_call_Errorf: "bnd (call_Errorf t format args) k s = k () (Errorf t format args s)"
  by (simp add: bnd_def call_Errorf_def)

lemma ret_apply: "ret x s = (Return x, s)"
  by (simp add: ret_def)

lemmas go_simps = bnd_pure_Return bnd_pure_Panic bnd_call_Helper bnd_call_Errorf ret_apply

lemma fail_report:
  "bnd (call_Helper t) (\<lambda>_.
   bnd (pure (FormatPrefix m)) (\<lambda>prefix.
   bnd (call_Errorf t format (VString prefix # args)) (\<lambda>_.
   ret False))) = report t m format args"
  by (rule ext) (simp add: report_def go_simps split: res.split)


section \<open>Each assertion as one case distinction\<close>









lemma Nil_run:
  "Nil_assert t a m s =
     (case a of
        NilPtr \<Rightarrow> (Return True, s)
      | Ptr addr pointee \<Rightarrow> report t m ''** %sgot &%v, wanted nil'' [pointee] s)"
  by (simp add: Nil_assert_def report_def go_simps split: ptr.split res.split)

lemma NonNil_run:
  "NonNil T t a m s =
     (if a = NilPtr then report t m ''** %sgot nil %T, wanted non-nil'' [any_ptr T a] s
      else (Return True, s))"
  by (simp add: NonNil_def fail_report ret_apply)



lemma EmptySlice_run:
  "EmptySlice T t a m s =
     (if len_slice a > 0 then report t m ''** %sgot %v, wanted empty slice'' [any_slice T a] s
      else (Return True, s))"
  by (simp add: EmptySlice_def fail_report ret_apply)

lemma NonEmptySlice_run:
  "NonEmptySlice T t a m s =
     (if len_slice a = 0 then report t m ''** %sgot empty %T, wanted non-empty'' [any_slice T a] s
      else (Return True, s))"
  by (simp add: NonEmptySlice_def fail_report ret_apply)

lemma EmptyMap_run:
  "EmptyMap K V t a m s =
     (if len_map a > 0 then report t m ''** %sgot %v, wanted empty map'' [any_map K V a] s
      else (Return True, s))"
  by (simp add: EmptyMap_def fail_report ret_apply)

lemma NonEmptyMap_run:
  "NonEmptyMap K V t a m s =
     (if len_map a = 0 then report t m ''** %sgot empty %T, wanted non-empty'' [any_map K V a] s
      else (Return True, s))"
  by (simp add: NonEmptyMap_def fail_report ret_apply)

lemma Success_run:
  "Success t a m s =
     (if a = None then (Return True, s)
      else report t m ''** %sfailed: %v'' [any_error a] s)"
  by (simp add: Success_def fail_report ret_apply)

lemma Error_run:
  "Error t a e m s =
     (if e = None then Success t a m (Helper t s)
      else if a = None then
        report t m ''** %ssucceeded, wanted to fail with: %v'' [any_error e] s
      else if errors_Is a e then (Return True, s)
      else report t m ''** %sfailed with: %v, wanted: %v'' [any_error a, any_error e] s)"
  by (simp add: Error_def fail_report bnd_call_Helper ret_apply)


lemma capturePanic_run:
  "capturePanic f s = (Return (recover (fst (f s))), snd (f s))"
  by (simp add: capturePanic_def split: prod.split)

lemma PanicMsg_run:
  "PanicMsg t f e m s =
     (let actual = recover (fst (f s)); s' = snd (f s) in
      if actual = VNil then
        report t m ''** %ssucceeded, wanted to panic with: %v'' [VString e] s'
      else if Sprint [actual] = e then (Return True, s')
      else report t m ''** %spaniced with: %v, wanted: %v'' [VString (Sprint [actual]), VString e] s')"
  by (simp add: PanicMsg_def bnd_def capturePanic_run fail_report ret_apply Let_def)

section \<open>The text of each report\<close>

lemma printArg_s_String: "printArg (CHR ''s'') (VString p) = p"
  by (simp add: printArg_def)

lemma printArg_v_String: "fmt_v (VString p) = p"
  by (simp add: printArg_def)

lemma printArg_v_Error: "fmt_v (VError x) = Error_text x"
  by (simp add: printArg_def)

lemma printArg_T: "printArg (CHR ''T'') a = type_name a"
  by (cases a) (simp_all add: printArg_def)

lemma extraArgs_Nil: "extraArgs [] = []"
  by (simp add: extraArgs_def)

lemmas fmt_simps = printArg_s_String printArg_T extraArgs_Nil

lemma text_got_false:
  "Sprintf ''** %sgot false, wanted true'' [VString p] = ''** '' @ p @ ''got false, wanted true''"
  by (simp add: fmt_simps)

lemma text_got_true:
  "Sprintf ''** %sgot true, wanted false'' [VString p] = ''** '' @ p @ ''got true, wanted false''"
  by (simp add: fmt_simps)

lemma text_got_wanted:
  "Sprintf ''** %sgot %v, wanted %v'' [VString p, a, e] =
     ''** '' @ p @ ''got '' @ fmt_v a @ '', wanted '' @ fmt_v e"
  by (simp add: fmt_simps)

lemma text_anything_else:
  "Sprintf ''** %sgot %v, wanted anything else'' [VString p, a] =
     ''** '' @ p @ ''got '' @ fmt_v a @ '', wanted anything else''"
  by (simp add: fmt_simps)

lemma text_wanted_nil:
  "Sprintf ''** %sgot &%v, wanted nil'' [VString p, a] =
     ''** '' @ p @ ''got &'' @ fmt_v a @ '', wanted nil''"
  by (simp add: fmt_simps)

lemma text_wanted_non_nil:
  "Sprintf ''** %sgot nil %T, wanted non-nil'' [VString p, a] =
     ''** '' @ p @ ''got nil '' @ type_name a @ '', wanted non-nil''"
  by (simp add: fmt_simps)

lemma text_wanted_zero:
  "Sprintf ''** %sgot %v, wanted zero value %v'' [VString p, a, z] =
     ''** '' @ p @ ''got '' @ fmt_v a @ '', wanted zero value '' @ fmt_v z"
  by (simp add: fmt_simps)

lemma text_wanted_non_zero:
  "Sprintf ''** %sgot zero value %v, wanted non-zero'' [VString p, a] =
     ''** '' @ p @ ''got zero value '' @ fmt_v a @ '', wanted non-zero''"
  by (simp add: fmt_simps)

lemma text_empty_slice:
  "Sprintf ''** %sgot %v, wanted empty slice'' [VString p, a] =
     ''** '' @ p @ ''got '' @ fmt_v a @ '', wanted empty slice''"
  by (simp add: fmt_simps)

lemma text_non_empty:
  "Sprintf ''** %sgot empty %T, wanted non-empty'' [VString p, a] =
     ''** '' @ p @ ''got empty '' @ type_name a @ '', wanted non-empty''"
  by (simp add: fmt_simps)

lemma text_empty_map:
  "Sprintf ''** %sgot %v, wanted empty map'' [VString p, a] =
     ''** '' @ p @ ''got '' @ fmt_v a @ '', wanted empty map''"
  by (simp add: fmt_simps)

lemma text_failed:
  "Sprintf ''** %sfailed: %v'' [VString p, a] = ''** '' @ p @ ''failed: '' @ fmt_v a"
  by (simp add: fmt_simps)

lemma text_wanted_to_fail:
  "Sprintf ''** %ssucceeded, wanted to fail with: %v'' [VString p, e] =
     ''** '' @ p @ ''succeeded, wanted to fail with: '' @ fmt_v e"
  by (simp add: fmt_simps)

lemma text_failed_with:
  "Sprintf ''** %sfailed with: %v, wanted: %v'' [VString p, a, e] =
     ''** '' @ p @ ''failed with: '' @ fmt_v a @ '', wanted: '' @ fmt_v e"
  by (simp add: fmt_simps)

lemma text_wanted_to_panic:
  "Sprintf ''** %ssucceeded, wanted to panic with: %v'' [VString p, e] =
     ''** '' @ p @ ''succeeded, wanted to panic with: '' @ fmt_v e"
  by (simp add: fmt_simps)

lemma text_paniced_with:
  "Sprintf ''** %spaniced with: %v, wanted: %v'' [VString p, a, e] =
     ''** '' @ p @ ''paniced with: '' @ fmt_v a @ '', wanted: '' @ fmt_v e"
  by (simp add: fmt_simps)

lemmas text_simps =
  text_got_false text_got_true text_got_wanted text_anything_else text_wanted_nil
  text_wanted_non_nil text_wanted_zero text_wanted_non_zero text_empty_slice text_non_empty
  text_empty_map text_failed text_wanted_to_fail text_failed_with text_wanted_to_panic
  text_paniced_with

section \<open>Runs on the recorder\<close>

lemma Helper_recorder: "Helper recorder tr = tr @ [HelperCall]"
  by (simp add: recorder_def)

lemma Errorf_recorder: "Errorf recorder format args tr = tr @ [ErrorfCall format args]"
  by (simp add: recorder_def)

lemma report_recorder:
  "FormatPrefix m = Return prefix \<Longrightarrow>
   report recorder m format args tr =
     (Return False, tr @ [HelperCall, ErrorfCall format (VString prefix # args)])"
  by (simp add: report_def Helper_recorder Errorf_recorder)

lemma report_recorder_panics:
  "FormatPrefix m = Panic v \<Longrightarrow> report recorder m format args tr = (Panic v, tr @ [HelperCall])"
  by (simp add: report_def Helper_recorder)

lemma outcome_report:
  "FormatPrefix m = Return prefix \<Longrightarrow>
   outcome (report recorder m format args tr) =
     (Return False, map observe tr @ [Marked, Reported (Sprintf format (VString prefix # args))])"
  by (simp add: report_recorder outcome_def)

lemma outcome_True: "outcome (Return True, tr) = (Return True, map observe tr)"
  by (simp add: outcome_def)

lemma fst_report: "fst (report t m format args s) \<noteq> Return True"
  by (simp add: report_def split: res.split)


section \<open>The message formatter: properties\<close>

lemma FormatPrefix_Nil: "FormatPrefix [] = Return ''''"
  by (simp add: FormatPrefix_def)

lemma FormatPrefix_String: "FormatPrefix (VString msg # rest) = Return (Sprintf msg rest @ '': '')"
  by (simp add: FormatPrefix_def)

lemma text_not_a_format:
  "Sprintf ''when passing messageAndArgs to assertion funcs, the first extra argument must be a format string, got %T %v'' [x, y] =
     ''when passing messageAndArgs to assertion funcs, the first extra argument must be a format string, got '' @ type_name x @ '' '' @ fmt_v y"
  by (simp add: fmt_simps)

lemma FormatPrefix_not_String:
  "\<not> is_string x \<Longrightarrow>
   FormatPrefix (x # rest) =
     Panic (VError (Err ''*errors.errorString''
       (''when passing messageAndArgs to assertion funcs, the first extra argument must be a format string, got '' @ type_name x @ '' '' @ fmt_v x)
       None))"
  by (cases x) (simp_all add: FormatPrefix_def fmt_Errorf_def fmt_simps)

lemma FormatPrefix_panics_iff:
  "(\<exists>v. FormatPrefix m = Panic v) \<longleftrightarrow> (m \<noteq> [] \<and> \<not> is_string (hd m))"
proof (cases m)
  case Nil
  then show ?thesis by (simp add: FormatPrefix_Nil)
next
  case (Cons x rest)
  show ?thesis
  proof (cases "is_string x")
    case True
    then obtain msg where "x = VString msg" by (cases x) simp_all
    with Cons show ?thesis by (simp add: FormatPrefix_String)
  next
    case False
    with Cons show ?thesis by (simp add: FormatPrefix_not_String)
  qed
qed





section \<open>Adding a prefix: properties\<close>

lemma AddPrefix_String:
  "AddPrefix (VString msg # rest) prefix args = VString (prefix @ '': '' @ msg) # args @ rest"
  by (simp add: AddPrefix_def)

lemma AddPrefix_Nil: "AddPrefix [] prefix args = VString prefix # args"
  by (simp add: AddPrefix_def)

lemma AddPrefix_not_String:
  "\<not> is_string x \<Longrightarrow> AddPrefix (x # rest) prefix args = VString prefix # args @ x # rest"
  by (cases x) (simp_all add: AddPrefix_def)

text \<open>
  C5: \<^verbatim>\<open>AddPrefix\<close> of a tail that starts with a string puts the prefix, a colon and a
  space before that string and the prefix arguments between it and the rest of the tail;
  of any other tail, empty or not, it puts the prefix and its arguments before the tail,
  which is passed through unchanged. The three examples of the tests follow.
\<close>

theorem AddPrefix_splices:
  "AddPrefix (VString msg # rest) prefix args = [VString (prefix @ '': '' @ msg)] @ args @ rest
   \<and> AddPrefix [] prefix args = [VString prefix] @ args
   \<and> (\<not> is_string x \<longrightarrow> AddPrefix (x # rest) prefix args = [VString prefix] @ args @ (x # rest))
   \<and> AddPrefix [] ''foo.%d'' [VInt 42] = [VString ''foo.%d'', VInt 42]
   \<and> AddPrefix [VString ''bar %s'', VString ''boz''] ''foo.%d'' [VInt 42] =
       [VString ''foo.%d: bar %s'', VInt 42, VString ''boz'']
   \<and> AddPrefix [VInt 1, VInt 2, VInt 3] ''foo.%d'' [VInt 42] =
       [VString ''foo.%d'', VInt 42, VInt 1, VInt 2, VInt 3]"
  by (simp add: AddPrefix_String AddPrefix_Nil AddPrefix_not_String)

theorem AddPrefix_splices_witness:
  "AddPrefix [VInt 1, VInt 2, VInt 3] ''foo.%d'' [VInt 42] =
     [VString ''foo.%d'', VInt 42, VInt 1, VInt 2, VInt 3]
   \<and> AddPrefix [VString ''bar %s'', VString ''boz''] ''foo.%d'' [VInt 42] =
       [VString ''foo.%d: bar %s'', VInt 42, VString ''boz'']"
  using AddPrefix_splices [of "''bar %s''" "[VInt 2, VInt 3]" "''foo.%d''" "[VInt 42]" "VInt 1"]
  by simp

section \<open>The fault capturer: properties\<close>

text \<open>
  C7: when the operation panics, \<^verbatim>\<open>capturePanic\<close> returns the value of the panic;
  when the operation returns, \<^verbatim>\<open>capturePanic\<close> returns nil; in both cases it returns,
  so no panic of the operation reaches its caller.
\<close>

theorem capturePanic_intercepts:
  "(f s = (Panic v, s') \<longrightarrow> capturePanic f s = (Return v, s'))
   \<and> (f s = (Return (), s') \<longrightarrow> capturePanic f s = (Return VNil, s'))
   \<and> (\<exists>w. capturePanic f s = (Return w, snd (f s)))"
  by (simp add: capturePanic_run)

theorem capturePanic_intercepts_witness:
  "capturePanic (panic (VString ''boom'')) ([] :: call list) = (Return (VString ''boom''), [])
   \<and> capturePanic (ret ()) ([] :: call list) = (Return VNil, [])"
  using capturePanic_intercepts [of "panic (VString ''boom'')" "[] :: call list" "VString ''boom''" "[]"]
        capturePanic_intercepts [of "ret ()" "[] :: call list" "VNil" "[]"]
  by (simp add: panic_def ret_def)

section \<open>What the assertions return\<close>

lemma FormatPrefix_well_formed: "well_formed m \<Longrightarrow> \<exists>prefix. FormatPrefix m = Return prefix"
proof (cases m)
  case Nil
  then show ?thesis by (simp add: FormatPrefix_Nil)
next
  case (Cons x rest)
  assume "well_formed m"
  with Cons obtain msg where "x = VString msg" by (cases x) (simp_all add: well_formed_def)
  with Cons show ?thesis by (simp add: FormatPrefix_String)
qed

lemma well_formed_iff: "well_formed m \<longleftrightarrow> (\<exists>prefix. FormatPrefix m = Return prefix)"
proof
  assume "well_formed m"
  then show "\<exists>prefix. FormatPrefix m = Return prefix" by (rule FormatPrefix_well_formed)
next
  assume "\<exists>prefix. FormatPrefix m = Return prefix"
  then have "\<not> (\<exists>v. FormatPrefix m = Panic v)" by auto
  then have "m = [] \<or> is_string (hd m)" by (simp add: FormatPrefix_panics_iff)
  then show "well_formed m" by (cases m) (simp_all add: well_formed_def)
qed














































section \<open>Asserting a panic\<close>

lemma Sprint_single: "Sprint [v] = fmt_v v"
  by (simp add: Sprint_def)

lemma capturePanic_eq:
  "capturePanic f s = (Return actual, s') \<longleftrightarrow> recover (fst (f s)) = actual \<and> snd (f s) = s'"
  by (simp add: capturePanic_run)

lemma PanicMsg_no_panic:
  assumes "capturePanic f tr = (Return VNil, tr')" and "FormatPrefix m = Return prefix"
  shows "outcome (PanicMsg recorder f e m tr) =
           (Return False, map observe tr' @
              [Marked, Reported (''** '' @ prefix @ ''succeeded, wanted to panic with: '' @ e)])"
  using assms
  by (simp add: capturePanic_eq PanicMsg_run outcome_report fmt_simps printArg_v_String)

lemma PanicMsg_other_panic:
  assumes "capturePanic f tr = (Return actual, tr')" and "FormatPrefix m = Return prefix"
    and "actual \<noteq> VNil" and "Sprint [actual] \<noteq> e"
  shows "outcome (PanicMsg recorder f e m tr) =
           (Return False, map observe tr' @
              [Marked, Reported (''** '' @ prefix @ ''paniced with: '' @ Sprint [actual] @ '', wanted: '' @ e)])"
  using assms
  by (simp add: capturePanic_eq PanicMsg_run outcome_report fmt_simps printArg_v_String)

lemma PanicMsg_expected_panic:
  assumes "capturePanic f tr = (Return actual, tr')"
    and "actual \<noteq> VNil" and "Sprint [actual] = e"
  shows "PanicMsg recorder f e m tr = (Return True, tr')"
  using assms by (auto simp add: capturePanic_eq PanicMsg_run)

text \<open>
  C6: \<^verbatim>\<open>PanicMsg\<close> runs the operation under \<^verbatim>\<open>capturePanic\<close>, which leaves the
  captured value \<open>actual\<close> and the trace \<open>tr'\<close>. With \<open>prefix\<close> the prefix of the tail: if
  nothing was captured it marks the frame, reports
  \<open>** <prefix>succeeded, wanted to panic with: e\<close> and returns false; if the text
  \<^verbatim>\<open>fmt.Sprint\<close> gives for the captured value differs from \<open>e\<close> it marks the frame,
  reports \<open>** <prefix>paniced with: <text>, wanted: e\<close> and returns false; if that text
  is \<open>e\<close> it returns true and adds no call to the trace.
\<close>

theorem PanicMsg_three_cases:
  assumes "capturePanic f tr = (Return actual, tr')" and "FormatPrefix m = Return prefix"
  shows
    "(actual = VNil \<longrightarrow>
        outcome (PanicMsg recorder f e m tr) =
          (Return False, map observe tr' @
             [Marked, Reported (''** '' @ prefix @ ''succeeded, wanted to panic with: '' @ e)]))
     \<and> (actual \<noteq> VNil \<and> Sprint [actual] \<noteq> e \<longrightarrow>
        outcome (PanicMsg recorder f e m tr) =
          (Return False, map observe tr' @
             [Marked, Reported (''** '' @ prefix @ ''paniced with: '' @ Sprint [actual] @ '', wanted: '' @ e)]))
     \<and> (actual \<noteq> VNil \<and> Sprint [actual] = e \<longrightarrow>
        PanicMsg recorder f e m tr = (Return True, tr'))"
proof (intro conjI impI)
  assume "actual = VNil"
  with assms show "outcome (PanicMsg recorder f e m tr) =
      (Return False, map observe tr' @
         [Marked, Reported (''** '' @ prefix @ ''succeeded, wanted to panic with: '' @ e)])"
    by (simp add: PanicMsg_no_panic)
next
  assume "actual \<noteq> VNil \<and> Sprint [actual] \<noteq> e"
  with assms show "outcome (PanicMsg recorder f e m tr) =
      (Return False, map observe tr' @
         [Marked, Reported (''** '' @ prefix @ ''paniced with: '' @ Sprint [actual] @ '', wanted: '' @ e)])"
    by (simp add: PanicMsg_other_panic)
next
  assume "actual \<noteq> VNil \<and> Sprint [actual] = e"
  with assms(1) show "PanicMsg recorder f e m tr = (Return True, tr')"
    by (simp add: PanicMsg_expected_panic)
qed

theorem PanicMsg_three_cases_witness:
  "outcome (PanicMsg recorder (ret ()) ''foo'' [] []) =
     (Return False, [Marked, Reported ''** succeeded, wanted to panic with: foo''])
   \<and> outcome (PanicMsg recorder (panic index_out_of_range) ''foo'' [] []) =
     (Return False, [Marked, Reported
        ''** paniced with: runtime error: index out of range [2] with length 2, wanted: foo''])
   \<and> PanicMsg recorder (panic index_out_of_range)
        ''runtime error: index out of range [2] with length 2'' [] [] = (Return True, [])"
  using PanicMsg_three_cases [of "ret ()" "[]" VNil "[]" "[]" "''''" "''foo''"]
        PanicMsg_three_cases [of "panic index_out_of_range" "[]" index_out_of_range "[]" "[]" "''''" "''foo''"]
        PanicMsg_three_cases [of "panic index_out_of_range" "[]" index_out_of_range "[]" "[]" "''''"
          "''runtime error: index out of range [2] with length 2''"]
  by (simp add: capturePanic_run ret_def panic_def FormatPrefix_Nil index_out_of_range_def
      Sprint_single printArg_v_Error)

text \<open>
  C10: an operation that panics with the nil value leaves \<^verbatim>\<open>capturePanic\<close> returning
  nil. \<^verbatim>\<open>PanicMsg\<close> then does what it does for an operation \<open>g\<close> that returns with the
  same trace: for every expected text it marks the frame, reports
  \<open>** <prefix>succeeded, wanted to panic with: e\<close> and returns false.
\<close>

theorem PanicMsg_nil_panic:
  assumes "f tr = (Panic VNil, tr')" and "FormatPrefix m = Return prefix"
  shows
    "capturePanic f tr = (Return VNil, tr')
     \<and> outcome (PanicMsg recorder f e m tr) =
         (Return False, map observe tr' @
            [Marked, Reported (''** '' @ prefix @ ''succeeded, wanted to panic with: '' @ e)])
     \<and> (g tr = (Return (), tr') \<longrightarrow> PanicMsg recorder f e m tr = PanicMsg recorder g e m tr)"
proof (intro conjI impI)
  show c: "capturePanic f tr = (Return VNil, tr')"
    using assms(1) by (simp add: capturePanic_run)
  show "outcome (PanicMsg recorder f e m tr) =
      (Return False, map observe tr' @
         [Marked, Reported (''** '' @ prefix @ ''succeeded, wanted to panic with: '' @ e)])"
    using c assms(2) by (rule PanicMsg_no_panic)
next
  assume "g tr = (Return (), tr')"
  with assms(1) show "PanicMsg recorder f e m tr = PanicMsg recorder g e m tr"
    by (simp add: PanicMsg_run)
qed

theorem PanicMsg_nil_panic_witness:
  "capturePanic (panic VNil) ([] :: call list) = (Return VNil, [])
   \<and> outcome (PanicMsg recorder (panic VNil) ''foo'' [] []) =
       (Return False, [Marked, Reported ''** succeeded, wanted to panic with: foo''])
   \<and> PanicMsg recorder (panic VNil) ''foo'' [] [] = PanicMsg recorder (ret ()) ''foo'' [] []"
  using PanicMsg_nil_panic [of "panic VNil" "[]" "[]" "[]" "''''" "''foo''" "ret ()"]
  by (simp add: panic_def ret_def FormatPrefix_Nil PanicMsg_run outcome_report fmt_simps
      printArg_v_String)

section \<open>The calls of an assertion whose condition holds\<close>




section \<open>Error with a nil expected error\<close>

text \<open>
  \<^verbatim>\<open>Error\<close> with both errors nil returns true after one \<^verbatim>\<open>Helper\<close> call, where
  \<^verbatim>\<open>Success\<close> on the nil error calls nothing.
\<close>

theorem Error_nil_marks_Success_does_not:
  "Error recorder None None [] [] = (Return True, [HelperCall])
   \<and> Success recorder None [] [] = (Return True, [])"
  by (simp add: Error_run Success_run Helper_recorder)

lemma report_recorder_append:
  "snd (report recorder m format args tr) = tr @ snd (report recorder m format args [])"
  by (simp add: report_def Helper_recorder Errorf_recorder split: res.split)

lemma Success_recorder_append:
  "snd (Success recorder x m tr) = tr @ snd (Success recorder x m [])"
  using report_recorder_append [of m _ _ tr] by (simp add: Success_run)

lemma fst_report_recorder:
  "fst (report recorder m format args tr) = fst (report recorder m format args [])"
  by (simp add: report_def split: res.split)

lemma fst_Success_recorder: "fst (Success recorder x m tr) = fst (Success recorder x m [])"
  using fst_report_recorder [of m _ _ tr] by (simp add: Success_run)

text \<open>
  C3, as the code has it: \<^verbatim>\<open>Error\<close> with a nil expected error is one \<^verbatim>\<open>Helper\<close> call
  followed by \<^verbatim>\<open>Success\<close> on the same actual error and tail. It returns what
  \<^verbatim>\<open>Success\<close> returns, or panics as \<^verbatim>\<open>Success\<close> does, and its calls on the reporting
  capability are that one \<^verbatim>\<open>Helper\<close> call and then the calls of \<^verbatim>\<open>Success\<close>.
\<close>

theorem Error_nil_is_Helper_then_Success:
  "Error t x None m s = Success t x m (Helper t s)
   \<and> fst (Error recorder x None m tr) = fst (Success recorder x m tr)
   \<and> snd (Error recorder x None m tr) = tr @ [HelperCall] @ snd (Success recorder x m [])
   \<and> snd (Success recorder x m tr) = tr @ snd (Success recorder x m [])"
proof (intro conjI)
  show "Error t x None m s = Success t x m (Helper t s)"
    by (simp add: Error_run)
  show "fst (Error recorder x None m tr) = fst (Success recorder x m tr)"
    using fst_Success_recorder [of x m "tr @ [HelperCall]"] fst_Success_recorder [of x m tr]
    by (simp add: Error_run Helper_recorder)
  show "snd (Error recorder x None m tr) = tr @ [HelperCall] @ snd (Success recorder x m [])"
    using Success_recorder_append [of x m "tr @ [HelperCall]"]
    by (simp add: Error_run Helper_recorder)
  show "snd (Success recorder x m tr) = tr @ snd (Success recorder x m [])"
    by (rule Success_recorder_append)
qed

theorem Error_nil_is_Helper_then_Success_witness:
  "Error recorder (Some ErrNotExist) None [] [] =
     (Return False, [HelperCall, HelperCall,
        ErrorfCall ''** %sfailed: %v'' [VString '''', VError ErrNotExist]])
   \<and> Success recorder (Some ErrNotExist) [] [] =
     (Return False, [HelperCall,
        ErrorfCall ''** %sfailed: %v'' [VString '''', VError ErrNotExist]])"
  using Error_nil_is_Helper_then_Success [of recorder "Some ErrNotExist" "[]" "[]" "[]"]
  by (simp add: Success_run report_def FormatPrefix_Nil Helper_recorder Errorf_recorder)

section \<open>The calls of an assertion whose condition fails\<close>


lemmas fail_simps =
  outcome_report fmt_simps printArg_v_String printArg_v_Error Helper_recorder



section \<open>Nil and empty containers\<close>

text \<open>
  \<^verbatim>\<open>Nil\<close> takes pointers only, and tells a nil pointer from every other pointer: it
  passes on the nil pointer to a slice and fails on a pointer to an initialised slice
  of length zero.
\<close>

theorem Nil_tells_nil_from_pointer_to_empty:
  "fst (Nil_assert recorder NilPtr [] []) = Return True
   \<and> fst (Nil_assert recorder (Ptr 1 (VSlice TInt [])) [] []) = Return False
   \<and> fst (NonNil (TSlice TInt) recorder NilPtr [] []) = Return False
   \<and> fst (NonNil (TSlice TInt) recorder (Ptr 1 (VSlice TInt [])) [] []) = Return True"
  by (simp add: Nil_run NonNil_run report_def FormatPrefix_Nil)

lemma outcome_report_nil_slice:
  "outcome (report recorder m ''** %sgot empty %T, wanted non-empty'' [VNilSlice T] tr) =
   outcome (report recorder m ''** %sgot empty %T, wanted non-empty'' [VSlice T []] tr)"
  by (simp add: outcome_def report_def Helper_recorder Errorf_recorder fmt_simps split: res.split)

lemma outcome_report_nil_map:
  "outcome (report recorder m ''** %sgot empty %T, wanted non-empty'' [VNilMap K V] tr) =
   outcome (report recorder m ''** %sgot empty %T, wanted non-empty'' [VMap K V []] tr)"
  by (simp add: outcome_def report_def Helper_recorder Errorf_recorder fmt_simps split: res.split)

text \<open>
  C9, as the code has it: \<^verbatim>\<open>EmptySlice\<close> passes on the nil slice and on the initialised
  slice of length zero alike, with no call; \<^verbatim>\<open>NonEmptySlice\<close> fails on both with the
  same result, the same calls and the same text, which names the type of the slice; and
  so do \<^verbatim>\<open>EmptyMap\<close> and \<^verbatim>\<open>NonEmptyMap\<close> on the nil map and the initialised empty map,
  for every element, key and value type.
\<close>

theorem nil_container_as_empty:
  "EmptySlice T recorder NilSlice m tr = (Return True, tr)
   \<and> EmptySlice T recorder (Slice []) m tr = (Return True, tr)
   \<and> outcome (NonEmptySlice T recorder NilSlice m tr) =
       outcome (NonEmptySlice T recorder (Slice []) m tr)
   \<and> fst (NonEmptySlice T recorder NilSlice m tr) \<noteq> Return True
   \<and> (FormatPrefix m = Return prefix \<longrightarrow>
        outcome (NonEmptySlice T recorder NilSlice m tr) =
          (Return False, map observe tr @
             [Marked, Reported (''** '' @ prefix @ ''got empty []'' @ ty_name T @ '', wanted non-empty'')]))
   \<and> EmptyMap K V recorder NilMap m tr = (Return True, tr)
   \<and> EmptyMap K V recorder (MapOf []) m tr = (Return True, tr)
   \<and> outcome (NonEmptyMap K V recorder NilMap m tr) =
       outcome (NonEmptyMap K V recorder (MapOf []) m tr)
   \<and> fst (NonEmptyMap K V recorder NilMap m tr) \<noteq> Return True
   \<and> (FormatPrefix m = Return prefix \<longrightarrow>
        outcome (NonEmptyMap K V recorder NilMap m tr) =
          (Return False, map observe tr @
             [Marked, Reported (''** '' @ prefix @ ''got empty map['' @ ty_name K @ '']'' @ ty_name V @ '', wanted non-empty'')]))"
proof (intro conjI impI)
  show "EmptySlice T recorder NilSlice m tr = (Return True, tr)"
    by (simp add: EmptySlice_run)
  show "EmptySlice T recorder (Slice []) m tr = (Return True, tr)"
    by (simp add: EmptySlice_run)
  show "outcome (NonEmptySlice T recorder NilSlice m tr) =
      outcome (NonEmptySlice T recorder (Slice []) m tr)"
    by (simp add: NonEmptySlice_run outcome_report_nil_slice)
  show "fst (NonEmptySlice T recorder NilSlice m tr) \<noteq> Return True"
    by (simp add: NonEmptySlice_run fst_report)
  show "outcome (NonEmptySlice T recorder NilSlice m tr) =
      (Return False, map observe tr @
         [Marked, Reported (''** '' @ prefix @ ''got empty []'' @ ty_name T @ '', wanted non-empty'')])"
    if "FormatPrefix m = Return prefix"
    using that by (simp add: NonEmptySlice_run fail_simps)
  show "EmptyMap K V recorder NilMap m tr = (Return True, tr)"
    by (simp add: EmptyMap_run)
  show "EmptyMap K V recorder (MapOf []) m tr = (Return True, tr)"
    by (simp add: EmptyMap_run)
  show "outcome (NonEmptyMap K V recorder NilMap m tr) =
      outcome (NonEmptyMap K V recorder (MapOf []) m tr)"
    by (simp add: NonEmptyMap_run outcome_report_nil_map)
  show "fst (NonEmptyMap K V recorder NilMap m tr) \<noteq> Return True"
    by (simp add: NonEmptyMap_run fst_report)
  show "outcome (NonEmptyMap K V recorder NilMap m tr) =
      (Return False, map observe tr @
         [Marked, Reported (''** '' @ prefix @ ''got empty map['' @ ty_name K @ '']'' @ ty_name V @ '', wanted non-empty'')])"
    if "FormatPrefix m = Return prefix"
    using that by (simp add: NonEmptyMap_run fail_simps)
qed

theorem nil_container_as_empty_witness:
  "outcome (NonEmptySlice TInt recorder NilSlice [] []) =
     (Return False, [Marked, Reported ''** got empty []int, wanted non-empty''])
   \<and> outcome (NonEmptySlice TInt recorder (Slice []) [] []) =
     (Return False, [Marked, Reported ''** got empty []int, wanted non-empty''])
   \<and> outcome (NonEmptyMap TInt TString recorder (MapOf []) [] []) =
     (Return False, [Marked, Reported ''** got empty map[int]string, wanted non-empty''])"
  using nil_container_as_empty [of TInt "[]" "[]" "''''" TInt TString]
  by (auto simp add: FormatPrefix_Nil)

end
